theory Spec2Isabelle
  imports Main "HOL-Library.Product_Lexorder" "HOL-Library.Multiset"
begin

section \<open>Text\<close>

text \<open>
  Python strings are modelled as \<open>string\<close>, one \<open>char\<close> per character. The model is
  exact for ASCII text. The only non-ASCII text the program writes itself is the epsilon
  sign of \<open>cyk_parser.py\<close>, which is kept here as the two bytes of its UTF-8 encoding; the
  program only ever compares it with a whole right-hand side.
  \<open>isupper\<close>, \<open>isdigit\<close> and \<open>isspace\<close> are the ASCII parts of \<open>str.isupper\<close>,
  \<open>str.isdigit\<close> and \<open>str.isspace\<close>.
\<close>

definition isupper :: "char \<Rightarrow> bool" where
  "isupper c = (c \<in> set ''ABCDEFGHIJKLMNOPQRSTUVWXYZ'')"

definition isdigit :: "char \<Rightarrow> bool" where
  "isdigit c = (c \<in> set ''0123456789'')"

definition isspace :: "char \<Rightarrow> bool" where
  "isspace c = (c \<in> set [CHR 0x09, CHR 0x0A, CHR 0x0B, CHR 0x0C, CHR 0x0D,
                          CHR 0x1C, CHR 0x1D, CHR 0x1E, CHR 0x1F, CHR 0x20])"

definition apostrophe :: char where
  "apostrophe = CHR 0x27"

definition epsilon_sign :: string where
  "epsilon_sign = [CHR 0xCE, CHR 0xB5]"

text \<open>\<open>s.strip()\<close>: leading and trailing whitespace removed.\<close>

definition strip :: "string \<Rightarrow> string" where
  "strip s = rev (dropWhile isspace (rev (dropWhile isspace s)))"

text \<open>\<open>s.isspace()\<close>: non-empty and whitespace only.\<close>

definition str_isspace :: "string \<Rightarrow> bool" where
  "str_isspace s = (s \<noteq> [] \<and> list_all isspace s)"

text \<open>
  \<open>s.split("->")\<close>: the parts between the occurrences of the separator, found from left
  to right without overlap. \<open>cur\<close> is the part read so far.
\<close>

fun split_arrow :: "string \<Rightarrow> string \<Rightarrow> string list" where
  "split_arrow cur [] = [cur]"
| "split_arrow cur [c] = [cur @ [c]]"
| "split_arrow cur (c # d # cs) =
     (if c = CHR ''-'' \<and> d = CHR ''>'' then cur # split_arrow [] cs
      else split_arrow (cur @ [c]) (d # cs))"

section \<open>Symbols and rules\<close>

text \<open>
  The errors of the program: the three \<open>ValueError\<close>s of \<open>cyk_parser.py\<close> by what they
  report (rule format, nonterminal name, rule position), the \<open>IndexError\<close> of reading
  \<open>value[0]\<close> of an empty name, and the \<open>TypeError\<close> of subscripting a set.
\<close>

datatype error = InvalidRuleFormat | InvalidNonterminal | InvalidPosition | IndexError | TypeError

text \<open>
  \<open>Terminal\<close> and \<open>Nonterminal\<close> are the two subclasses of \<open>Symbol\<close> that the program
  instantiates (class \<open>Epsilon\<close> is never instantiated); \<open>val\<close> is the field \<open>value\<close>.
\<close>

datatype Symbol = is_Terminal: Terminal (val: string) | is_Nonterminal: Nonterminal (val: string)

text \<open>\<open>Nonterminal.__init__\<close>, with its two checks; \<open>value[0]\<close> of an empty name raises.\<close>

definition Nonterminal_init :: "string \<Rightarrow> error + Symbol" where
  "Nonterminal_init v =
     (if v = [] then Inl IndexError
      else if \<not> isupper (hd v) then Inl InvalidNonterminal
      else if length v > 3 then Inl InvalidNonterminal
      else Inr (Nonterminal v))"

text \<open>\<open>Symbol.__eq__\<close> and \<open>Symbol.__hash__\<close>; \<open>h\<close> is Python's hash of a string.\<close>

definition Symbol_eq :: "Symbol \<Rightarrow> Symbol \<Rightarrow> bool" where
  "Symbol_eq a b = (val a = val b)"

definition Symbol_hash :: "(string \<Rightarrow> int) \<Rightarrow> Symbol \<Rightarrow> int" where
  "Symbol_hash h a = h (val a)"

record GrammarRule =
  lhs :: Symbol
  rhs :: "Symbol list"
  rule_number :: "int option"

text \<open>\<open>GrammarRule.__eq__\<close>: the rule number takes no part.\<close>

definition GrammarRule_eq :: "GrammarRule \<Rightarrow> GrammarRule \<Rightarrow> bool" where
  "GrammarRule_eq r1 r2 =
     (Symbol_eq (lhs r1) (lhs r2) \<and> length (rhs r1) = length (rhs r2) \<and>
      list_all (\<lambda>(s1, s2). Symbol_eq s1 s2) (zip (rhs r1) (rhs r2)))"

section \<open>The grammar container\<close>

text \<open>
  \<open>rules\<close> is the Python set \<open>self.rules\<close>, kept as the list of its elements in the order
  they were added; no two elements are equal by \<open>GrammarRule_eq\<close>.
\<close>

record Grammar =
  rules :: "GrammarRule list"
  next_rule_number :: int

definition Grammar_init :: Grammar where
  "Grammar_init = \<lparr>rules = [], next_rule_number = 1\<rparr>"

text \<open>
  The loop of \<open>add_rule\<close> over the right-hand side, spaces already removed. The first
  argument is the text from position \<open>i\<close> on, the second the list \<open>rhs\<close> built so far
  (\<open>syms\<close> here, since \<open>rhs\<close> is the field of a rule).
\<close>

fun scan_rhs :: "string \<Rightarrow> Symbol list \<Rightarrow> error + Symbol list" where
  "scan_rhs [] syms = Inr syms"
| "scan_rhs [c] syms =
     (if isupper c then
        (case Nonterminal_init [c] of Inl e \<Rightarrow> Inl e | Inr nt \<Rightarrow> Inr (syms @ [nt]))
      else if c = apostrophe \<and> syms \<noteq> [] \<and> is_Nonterminal (last syms) then
        (case Nonterminal_init (val (last syms) @ [apostrophe]) of
           Inl e \<Rightarrow> Inl e
         | Inr nt \<Rightarrow> Inr (butlast syms @ [nt]))
      else Inr (syms @ [Terminal [c]]))"
| "scan_rhs (c # d # cs) syms =
     (if isupper c then
        (if isdigit d \<or> d = apostrophe then
           (case Nonterminal_init [c, d] of
              Inl e \<Rightarrow> Inl e
            | Inr nt \<Rightarrow> scan_rhs cs (syms @ [nt]))
         else
           (case Nonterminal_init [c] of
              Inl e \<Rightarrow> Inl e
            | Inr nt \<Rightarrow> scan_rhs (d # cs) (syms @ [nt])))
      else if c = apostrophe \<and> syms \<noteq> [] \<and> is_Nonterminal (last syms) then
        (case Nonterminal_init (val (last syms) @ [apostrophe]) of
           Inl e \<Rightarrow> Inl e
         | Inr nt \<Rightarrow> scan_rhs (d # cs) (butlast syms @ [nt]))
      else scan_rhs (d # cs) (syms @ [Terminal [c]]))"

text \<open>
  The first part of \<open>add_rule\<close> (lines 57 to 96): the text is decoded into the left-hand
  side and the right-hand side of the new rule, or an error is raised.
\<close>

definition decode_rule :: "string \<Rightarrow> error + (Symbol \<times> Symbol list)" where
  "decode_rule rule_str =
     (let parts = split_arrow [] rule_str in
      if length parts \<noteq> 2 then Inl InvalidRuleFormat
      else
        let lhs_str = strip (parts ! 0); rhs_str = strip (parts ! 1) in
        case Nonterminal_init lhs_str of
          Inl e \<Rightarrow> Inl e
        | Inr l \<Rightarrow>
            if rhs_str = [] \<or> str_isspace rhs_str \<or> rhs_str = ''eps'' \<or> rhs_str = epsilon_sign
            then Inr (l, [])
            else
              (case scan_rhs (filter (\<lambda>c. c \<noteq> CHR '' '') rhs_str) [] of
                 Inl e \<Rightarrow> Inl e
               | Inr r \<Rightarrow> Inr (l, r)))"

text \<open>
  \<open>Grammar.add_rule\<close>. The result is the grammar after the call together with the error
  raised, if any: the grammar is returned as the call leaves it, also when it raises.
  With a position of 1 or more, line 110 subscripts the set \<open>self.rules\<close>, which raises
  \<open>TypeError\<close> in Python before anything is changed; the lines after it are never reached.
\<close>

definition add_rule :: "Grammar \<Rightarrow> string \<Rightarrow> int option \<Rightarrow> Grammar \<times> error option" where
  "add_rule g rule_str position =
     (case decode_rule rule_str of
        Inl e \<Rightarrow> (g, Some e)
      | Inr (l, r) \<Rightarrow>
          let new_rule = \<lparr>lhs = l, rhs = r, rule_number = None\<rparr> in
          if list_ex (GrammarRule_eq new_rule) (rules g) then (g, None)
          else
            (case position of
               None \<Rightarrow>
                 (\<lparr>rules = rules g @ [new_rule\<lparr>rule_number := Some (next_rule_number g)\<rparr>],
                   next_rule_number = next_rule_number g + 1\<rparr>, None)
             | Some p \<Rightarrow>
                 if p < 1 then (g, Some InvalidPosition)
                 else (g, Some TypeError)))"

section \<open>Rules as text\<close>

text \<open>
  Every pipeline stage hands a rule to the next grammar as text, through \<open>add_rule\<close>:
  the value of the left-hand side, the separator, and the values of the right-hand side
  joined without anything between them. \<open>remove_nonproductive\<close>, \<open>remove_epsilon_rules\<close>
  and \<open>eliminate_chain_rules\<close> write the separator with a space on each side
  (\<open>stage_text\<close>), \<open>remove_unreachable\<close> without (\<open>stage_text_tight\<close>).
\<close>

definition render_rhs :: "Symbol list \<Rightarrow> string" where
  "render_rhs r = concat (map val r)"

definition stage_text :: "Symbol \<Rightarrow> Symbol list \<Rightarrow> string" where
  "stage_text l r = val l @ '' -> '' @ render_rhs r"

definition stage_text_tight :: "Symbol \<Rightarrow> Symbol list \<Rightarrow> string" where
  "stage_text_tight l r = val l @ ''->'' @ render_rhs r"

text \<open>
  \<open>GrammarRule.__str__\<close>, which \<open>print_rules\<close> uses; no pipeline stage calls it.
  \<open>str_of_nat\<close> and \<open>str_of_int\<close> are \<open>str\<close> of a number.
\<close>

function str_of_nat :: "nat \<Rightarrow> string" where
  "str_of_nat n =
     (if n < 10 then [''0123456789'' ! n]
      else str_of_nat (n div 10) @ [''0123456789'' ! (n mod 10)])"
  by pat_completeness auto
termination
  by (relation "measure (\<lambda>n. n)") auto

definition str_of_int :: "int \<Rightarrow> string" where
  "str_of_int i = (if i < 0 then CHR ''-'' # str_of_nat (nat (- i)) else str_of_nat (nat i))"

fun join_spaces :: "string list \<Rightarrow> string" where
  "join_spaces [] = []"
| "join_spaces [x] = x"
| "join_spaces (x # y # ys) = x @ '' '' @ join_spaces (y # ys)"

definition GrammarRule_str :: "GrammarRule \<Rightarrow> string" where
  "GrammarRule_str rule =
     (case rule_number rule of None \<Rightarrow> [] | Some n \<Rightarrow> str_of_int n @ ''. '') @
     val (lhs rule) @ '' -> '' @
     (if rhs rule = [] then epsilon_sign else join_spaces (map val (rhs rule)))"


section \<open>The CYK recognizer\<close>

text \<open>
  Python does not fix the order in which a set is iterated: it depends on the hashes of
  the elements, which for strings change from one run of the interpreter to the next. A
  set is kept here as the list of its elements in the order they were added, and the order
  of iteration is a parameter of the model: for each of the three kinds of sets the program
  iterates (rules, symbols, table entries), a function from that list to the list in
  iteration order. \<open>insertion_order\<close> iterates in the order of insertion.
\<close>

record iteration =
  rule_order :: "GrammarRule list \<Rightarrow> GrammarRule list"
  symbol_order :: "Symbol list \<Rightarrow> Symbol list"
  entry_order :: "(Symbol \<times> int option) list \<Rightarrow> (Symbol \<times> int option) list"

definition insertion_order :: iteration where
  "insertion_order = \<lparr>rule_order = (\<lambda>xs. xs), symbol_order = (\<lambda>xs. xs), entry_order = (\<lambda>xs. xs)\<rparr>"

text \<open>
  \<open>Grammar.get_rules_list\<close>, which \<open>__iter__\<close> and \<open>__getitem__\<close> go through: the rules
  sorted by rule number, a rule without number (\<open>None\<close> or 0) after all numbered ones. The
  sort of Python is stable, as \<open>sort_key\<close> is. The key \<open>(0, n)\<close> stands for the number
  \<open>n\<close> and \<open>(1, 0)\<close> for infinity.
\<close>

definition rule_key :: "GrammarRule \<Rightarrow> nat \<times> int" where
  "rule_key x = (case rule_number x of None \<Rightarrow> (1, 0) | Some n \<Rightarrow> if n = 0 then (1, 0) else (0, n))"

definition get_rules_list :: "iteration \<Rightarrow> Grammar \<Rightarrow> GrammarRule list" where
  "get_rules_list h g = sort_key rule_key (rule_order h (rules g))"

text \<open>
  The recognition table: a dictionary from \<open>(i, j)\<close>, start offset and span length, to a set
  of pairs of a nonterminal and a rule number. \<open>add_to_table\<close> is the method of that name;
  two pairs are the same element of a cell when their symbols are equal by \<open>Symbol.__eq__\<close>
  and their numbers are equal.
\<close>

type_synonym entry = "Symbol \<times> int option"
type_synonym table = "nat \<times> nat \<Rightarrow> entry list option"

record CYKParser =
  start_symbol :: "Symbol option"
  grammar :: Grammar
  recognition_table :: table

definition entry_eq :: "entry \<Rightarrow> entry \<Rightarrow> bool" where
  "entry_eq a b = (Symbol_eq (fst a) (fst b) \<and> snd a = snd b)"

definition add_to_table :: "table \<Rightarrow> nat \<Rightarrow> nat \<Rightarrow> entry \<Rightarrow> table" where
  "add_to_table T i j nt_rule =
     (case T (i, j) of
        None \<Rightarrow> T((i, j) \<mapsto> [nt_rule])
      | Some cell \<Rightarrow> if list_ex (entry_eq nt_rule) cell then T else T((i, j) \<mapsto> cell @ [nt_rule]))"

text \<open>
  The first loops of \<open>parse\<close> (\<open>j = 1\<close>): for every position and every rule in ordered
  iteration, the test of line 414 and the call of \<open>add_to_table\<close>.
\<close>

definition is_terminal_rule :: "GrammarRule \<Rightarrow> string \<Rightarrow> bool" where
  "is_terminal_rule rule c =
     (length (rhs rule) = 1 \<and> is_Terminal (rhs rule ! 0) \<and> val (rhs rule ! 0) = c)"

definition base_step :: "string \<Rightarrow> nat \<Rightarrow> table \<Rightarrow> GrammarRule \<Rightarrow> table" where
  "base_step word i T rule =
     (if is_terminal_rule rule [word ! i]
      then add_to_table T i 1 (lhs rule, rule_number rule) else T)"

definition fill_base :: "GrammarRule list \<Rightarrow> string \<Rightarrow> table \<Rightarrow> table" where
  "fill_base rs word T = foldl (\<lambda>T i. foldl (base_step word i) T rs) T [0..<length word]"

text \<open>
  The loops of \<open>parse\<close> for \<open>j > 1\<close>, lines 418 to 428. \<open>span_step\<close> is the body of the loop
  over the rules for fixed \<open>i\<close>, \<open>j\<close> and \<open>k\<close>; the two cells it reads are not the cell
  \<open>(i, j)\<close> it writes, since \<open>1 \<le> k < j\<close>.
\<close>

definition pair_step :: "GrammarRule \<Rightarrow> nat \<Rightarrow> nat \<Rightarrow> entry \<Rightarrow> table \<Rightarrow> entry \<Rightarrow> table" where
  "pair_step rule i j l T r =
     (if Symbol_eq (rhs rule ! 0) (fst l) \<and> Symbol_eq (rhs rule ! 1) (fst r)
      then add_to_table T i j (lhs rule, rule_number rule) else T)"

definition span_step :: "iteration \<Rightarrow> nat \<Rightarrow> nat \<Rightarrow> nat \<Rightarrow> table \<Rightarrow> GrammarRule \<Rightarrow> table" where
  "span_step h i j k T rule =
     (if length (rhs rule) = 2 then
        (case T (i, k) of
           None \<Rightarrow> T
         | Some left \<Rightarrow>
             (case T (i + k, j - k) of
                None \<Rightarrow> T
              | Some right \<Rightarrow>
                  foldl (\<lambda>T l. foldl (pair_step rule i j l) T (entry_order h right))
                    T (entry_order h left)))
      else T)"

definition fill_spans :: "iteration \<Rightarrow> GrammarRule list \<Rightarrow> nat \<Rightarrow> table \<Rightarrow> table" where
  "fill_spans h rs n T =
     foldl (\<lambda>T j.
       foldl (\<lambda>T i.
         foldl (\<lambda>T k. foldl (span_step h i j k) T rs) T [1..<j])
         T [0..<n - j + 1])
       T [2..<n + 1]"

definition fill_table :: "iteration \<Rightarrow> CYKParser \<Rightarrow> string \<Rightarrow> table" where
  "fill_table h p word =
     (let rs = get_rules_list h (grammar p) in
      fill_spans h rs (length word) (fill_base rs word Map.empty))"

text \<open>
  \<open>_trace_rules\<close> for \<open>j = 1\<close>: the first rule in ordered iteration that passes the test of
  line 460. The test reads \<open>word[i]\<close> last, and reading it out of range raises
  \<open>IndexError\<close>.
\<close>

fun leaf_search :: "GrammarRule list \<Rightarrow> string \<Rightarrow> nat \<Rightarrow> Symbol \<Rightarrow> error + int option list" where
  "leaf_search [] word i current_nt = Inr []"
| "leaf_search (rule # rs) word i current_nt =
     (if length (rhs rule) = 1 \<and> is_Terminal (rhs rule ! 0) \<and> Symbol_eq (lhs rule) current_nt then
        (if i < length word then
           (if val (rhs rule ! 0) = [word ! i] then Inr [rule_number rule]
            else leaf_search rs word i current_nt)
         else Inl IndexError)
      else leaf_search rs word i current_nt)"

text \<open>
  \<open>_trace_rules\<close> for \<open>j > 1\<close>, lines 464 to 471: the nested loops return at the first
  split \<open>k\<close>, left entry, right entry and rule that pass the test of line 469.
  \<open>split_candidates\<close> lists all of them in the order the loops visit them; the function
  takes the first.
\<close>

definition is_binary_rule :: "GrammarRule \<Rightarrow> Symbol \<Rightarrow> Symbol \<Rightarrow> Symbol \<Rightarrow> bool" where
  "is_binary_rule rule current_nt left_nt right_nt =
     (Symbol_eq (lhs rule) current_nt \<and> length (rhs rule) = 2 \<and>
      Symbol_eq (rhs rule ! 0) left_nt \<and> Symbol_eq (rhs rule ! 1) right_nt)"

definition pair_candidates ::
  "GrammarRule list \<Rightarrow> Symbol \<Rightarrow> nat \<Rightarrow> entry \<Rightarrow> entry \<Rightarrow> (nat \<times> Symbol \<times> Symbol \<times> GrammarRule) list" where
  "pair_candidates rs current_nt k l r =
     map (\<lambda>rule. (k, fst l, fst r, rule))
       (filter (\<lambda>rule. is_binary_rule rule current_nt (fst l) (fst r)) rs)"

definition cell_candidates ::
  "iteration \<Rightarrow> GrammarRule list \<Rightarrow> table \<Rightarrow> nat \<Rightarrow> nat \<Rightarrow> Symbol \<Rightarrow> nat \<Rightarrow>
     (nat \<times> Symbol \<times> Symbol \<times> GrammarRule) list" where
  "cell_candidates h rs T i j current_nt k =
     (case T (i, k) of
        None \<Rightarrow> []
      | Some left \<Rightarrow>
          (case T (i + k, j - k) of
             None \<Rightarrow> []
           | Some right \<Rightarrow>
               concat (map (\<lambda>l. concat (map (pair_candidates rs current_nt k l) (entry_order h right)))
                 (entry_order h left))))"

definition split_candidates ::
  "iteration \<Rightarrow> GrammarRule list \<Rightarrow> table \<Rightarrow> nat \<Rightarrow> nat \<Rightarrow> Symbol \<Rightarrow>
     (nat \<times> Symbol \<times> Symbol \<times> GrammarRule) list" where
  "split_candidates h rs T i j current_nt =
     concat (map (cell_candidates h rs T i j current_nt) [1..<j])"

text \<open>
  The split of a candidate lies strictly between 0 and \<open>j\<close>, so both recursive calls of
  \<open>_trace_rules\<close> are on shorter spans.
\<close>

lemma split_candidates_range:
  "x \<in> set (split_candidates h rs T i j current_nt) \<Longrightarrow> 1 \<le> fst x \<and> fst x < j"
  by (auto simp: split_candidates_def cell_candidates_def pair_candidates_def
      split: option.splits)

function trace_rules ::
  "iteration \<Rightarrow> GrammarRule list \<Rightarrow> table \<Rightarrow> string \<Rightarrow> nat \<Rightarrow> nat \<Rightarrow> Symbol \<Rightarrow> error + int option list" where
  "trace_rules h rs T word i j current_nt =
     (if j = 1 then leaf_search rs word i current_nt
      else
        (case split_candidates h rs T i j current_nt of
           [] \<Rightarrow> Inr []
         | (k, left_nt, right_nt, rule) # _ \<Rightarrow>
             (case trace_rules h rs T word i k left_nt of
                Inl e \<Rightarrow> Inl e
              | Inr dl \<Rightarrow>
                  (case trace_rules h rs T word (i + k) (j - k) right_nt of
                     Inl e \<Rightarrow> Inl e
                   | Inr dr \<Rightarrow> Inr (rule_number rule # dl @ dr)))))"
  by pat_completeness auto
termination
proof (relation "measure (\<lambda>(h, rs, T, word, i, j, current_nt). j)")
  show "wf (measure (\<lambda>(h, rs, T, word, i, j, current_nt). j))" by simp
next
  fix h rs T and word :: string and i j current_nt x21 x22 k y left_nt ya right_nt rule
  assume "split_candidates h rs T i j current_nt = x21 # x22" "(k, y) = x21"
  then have "(k, y) \<in> set (split_candidates h rs T i j current_nt)" by simp
  from split_candidates_range [OF this]
  show "((h, rs, T, word, i, k, left_nt), h, rs, T, word, i, j, current_nt)
       \<in> measure (\<lambda>(h, rs, T, word, i, j, current_nt). j)" by simp
next
  fix h rs T and word :: string and i j current_nt x21 x22 k y left_nt ya right_nt rule
  assume "split_candidates h rs T i j current_nt = x21 # x22" "(k, y) = x21"
  then have "(k, y) \<in> set (split_candidates h rs T i j current_nt)" by simp
  from split_candidates_range [OF this]
  show "((h, rs, T, word, i + k, j - k, right_nt), h, rs, T, word, i, j, current_nt)
       \<in> measure (\<lambda>(h, rs, T, word, i, j, current_nt). j)" by simp
qed

text \<open>
  \<open>get_derivation_rules\<close> and \<open>parse\<close>. \<open>parse\<close> builds the table afresh (\<open>fill_table\<close> is
  the table it leaves in \<open>self.recognition_table\<close>) and returns the pair of the verdict and
  the derivation, \<open>None\<close> when the word is rejected.
\<close>

definition get_derivation_rules :: "iteration \<Rightarrow> CYKParser \<Rightarrow> table \<Rightarrow> string \<Rightarrow> error + int option list" where
  "get_derivation_rules h p T word =
     (let n = length word in
      case T (0, n) of
        None \<Rightarrow> Inr []
      | Some cell \<Rightarrow>
          (case start_symbol p of
             None \<Rightarrow> Inr []
           | Some s \<Rightarrow>
               (case filter (\<lambda>e. Symbol_eq (fst e) s) (entry_order h cell) of
                  [] \<Rightarrow> Inr []
                | e # _ \<Rightarrow>
                    if snd e = None \<or> snd e = Some 0 then Inr []
                    else trace_rules h (get_rules_list h (grammar p)) T word 0 n s)))"

definition parse :: "iteration \<Rightarrow> CYKParser \<Rightarrow> string \<Rightarrow> error + (bool \<times> int option list option)" where
  "parse h p word =
     (let T = fill_table h p word; n = length word in
      case T (0, n) of
        None \<Rightarrow> Inr (False, None)
      | Some cell \<Rightarrow>
          (case start_symbol p of
             None \<Rightarrow> Inr (False, None)
           | Some s \<Rightarrow>
               if list_ex (\<lambda>e. Symbol_eq (fst e) s) (entry_order h cell)
               then (case get_derivation_rules h p T word of
                       Inl e \<Rightarrow> Inl e
                     | Inr d \<Rightarrow> Inr (True, Some d))
               else Inr (False, None)))"

text \<open>
  Predicates used in the statements below. An iteration order enumerates exactly the
  elements of the set. \<open>keys_ok P T\<close>: every key of the table satisfies \<open>P\<close>.
  \<open>justified\<close>: at split \<open>k\<close> some rule of the current nonterminal has its two right-hand
  symbols in the two cells.
\<close>

definition is_iteration :: "iteration \<Rightarrow> bool" where
  "is_iteration h =
     ((\<forall>xs. mset (rule_order h xs) = mset xs) \<and>
      (\<forall>xs. mset (symbol_order h xs) = mset xs) \<and>
      (\<forall>xs. mset (entry_order h xs) = mset xs))"

definition keys_ok :: "(nat \<Rightarrow> nat \<Rightarrow> bool) \<Rightarrow> table \<Rightarrow> bool" where
  "keys_ok P T = (\<forall>i j. T (i, j) \<noteq> None \<longrightarrow> P i j)"


section \<open>The normalization pipeline\<close>

text \<open>
  What a call of a pipeline stage does: it returns a value, raises an error, or does not
  return. The \<open>while\<close> loops of the stages are partial functions, with \<open>None\<close> for a run
  that does not end.
\<close>

datatype 'a outcome = Returns 'a | Raises error | Diverges

fun outcome_bind :: "'a outcome \<Rightarrow> ('a \<Rightarrow> 'b outcome) \<Rightarrow> 'b outcome" where
  "outcome_bind (Returns x) f = f x"
| "outcome_bind (Raises e) f = Raises e"
| "outcome_bind Diverges f = Diverges"

text \<open>
  The calls \<open>new_grammar.add_rule(rule_str)\<close> of a stage, one rule text after the other;
  the first error ends the stage.
\<close>

fun add_all :: "Grammar \<Rightarrow> string list \<Rightarrow> Grammar outcome" where
  "add_all g [] = Returns g"
| "add_all g (rule_str # rest) =
     (case add_rule g rule_str None of
        (g', None) \<Rightarrow> add_all g' rest
      | (g', Some e) \<Rightarrow> Raises e)"

text \<open>
  Sets of symbols: membership and \<open>add\<close> go by \<open>Symbol.__eq__\<close>.
\<close>

definition symbol_in :: "Symbol \<Rightarrow> Symbol list \<Rightarrow> bool" where
  "symbol_in s xs = list_ex (Symbol_eq s) xs"

definition symbol_add :: "Symbol list \<Rightarrow> Symbol \<Rightarrow> Symbol list" where
  "symbol_add xs s = (if symbol_in s xs then xs else xs @ [s])"

text \<open>
  \<open>remove_nonproductive\<close>. \<open>productive_rule\<close> is the body of the loop over the rules of
  \<open>find_productive_nonterminals\<close>, on the set \<open>productive\<close> of names and the flag
  \<open>changed\<close>.
\<close>

definition rhs_productive :: "string list \<Rightarrow> GrammarRule \<Rightarrow> bool" where
  "rhs_productive productive rule =
     list_all (\<lambda>symbol. if is_Nonterminal symbol then val symbol \<in> set productive else True)
       (rhs rule)"

fun productive_rule :: "string list \<times> bool \<Rightarrow> GrammarRule \<Rightarrow> string list \<times> bool" where
  "productive_rule (productive, changed) rule =
     (if val (lhs rule) \<in> set productive then (productive, changed)
      else if rhs_productive productive rule
        then (productive @ [val (lhs rule)], True)
        else (productive, changed))"

partial_function (option) find_productive_nonterminals ::
  "GrammarRule list \<Rightarrow> string list \<Rightarrow> string list option" where
  "find_productive_nonterminals rs productive =
     (case foldl productive_rule (productive, False) rs of
        (productive', changed) \<Rightarrow>
          if changed then find_productive_nonterminals rs productive' else Some productive')"

declare find_productive_nonterminals.simps [code]

definition remove_nonproductive :: "iteration \<Rightarrow> Grammar \<Rightarrow> Grammar outcome" where
  "remove_nonproductive h g =
     (let rs = get_rules_list h g in
      case find_productive_nonterminals rs [] of
        None \<Rightarrow> Diverges
      | Some productive_nts \<Rightarrow>
          add_all Grammar_init
            (map (\<lambda>rule. stage_text (lhs rule) (rhs rule))
               (filter (\<lambda>rule. val (lhs rule) \<in> set productive_nts \<and>
                                rhs_productive productive_nts rule) rs)))"

text \<open>
  \<open>remove_unreachable\<close>, with its loop on the sizes of the set \<open>reachable\<close>.
\<close>

definition reach_rule :: "Symbol list \<Rightarrow> GrammarRule \<Rightarrow> Symbol list" where
  "reach_rule reachable rule =
     (if symbol_in (lhs rule) reachable
      then foldl (\<lambda>re symbol. if is_Nonterminal symbol then symbol_add re symbol else re)
             reachable (rhs rule)
      else reachable)"

partial_function (option) reachable_loop ::
  "GrammarRule list \<Rightarrow> Symbol list \<Rightarrow> nat \<Rightarrow> nat \<Rightarrow> Symbol list option" where
  "reachable_loop rs reachable old_size new_size =
     (if old_size \<noteq> new_size
      then reachable_loop rs (foldl reach_rule reachable rs) (length reachable)
             (length (foldl reach_rule reachable rs))
      else Some reachable)"

declare reachable_loop.simps [code]

definition remove_unreachable :: "iteration \<Rightarrow> Grammar \<Rightarrow> string \<Rightarrow> Grammar outcome" where
  "remove_unreachable h g start =
     (let rs = get_rules_list h g in
      case Nonterminal_init start of
        Inl e \<Rightarrow> Raises e
      | Inr s \<Rightarrow>
          (case reachable_loop rs [s] 0 1 of
             None \<Rightarrow> Diverges
           | Some reachable \<Rightarrow>
               add_all Grammar_init
                 (map (\<lambda>rule. stage_text_tight (lhs rule) (rhs rule))
                    (filter (\<lambda>rule. symbol_in (lhs rule) reachable) rs))))"

text \<open>
  \<open>remove_epsilon_rules\<close>. \<open>eps_loop\<close> is the second loop on \<open>eps_producers\<close>;
  \<open>mask_rhs\<close> is the right-hand side for one mask, where bit \<open>i\<close> of the mask clear means
  that the \<open>i\<close>-th nullable position is skipped; \<open>eps_variants\<close> are the rule texts added
  for one rule; \<open>new_start_rules\<close> are lines 238 to 242. The assignment to
  \<open>start_symbol\<close> of line 242 changes a local variable that is not read again.
\<close>

fun eps_rule :: "Symbol list \<times> bool \<Rightarrow> GrammarRule \<Rightarrow> Symbol list \<times> bool" where
  "eps_rule (eps_producers, changed) rule =
     (if \<not> symbol_in (lhs rule) eps_producers \<and> rhs rule \<noteq> [] \<and>
         list_all (\<lambda>symbol. symbol_in symbol eps_producers) (rhs rule)
      then (symbol_add eps_producers (lhs rule), True)
      else (eps_producers, changed))"

partial_function (option) eps_loop :: "GrammarRule list \<Rightarrow> Symbol list \<Rightarrow> Symbol list option" where
  "eps_loop rs eps_producers =
     (case foldl eps_rule (eps_producers, False) rs of
        (eps_producers', changed) \<Rightarrow>
          if changed then eps_loop rs eps_producers' else Some eps_producers')"

declare eps_loop.simps [code]

definition eps_positions :: "Symbol list \<Rightarrow> GrammarRule \<Rightarrow> nat list" where
  "eps_positions eps_producers rule =
     filter (\<lambda>i. symbol_in (rhs rule ! i) eps_producers) [0..<length (rhs rule)]"

definition mask_rhs :: "GrammarRule \<Rightarrow> nat list \<Rightarrow> nat \<Rightarrow> Symbol list" where
  "mask_rhs rule positions m =
     (let skip_positions =
            map (\<lambda>i. positions ! i)
              (filter (\<lambda>i. (m div 2 ^ i) mod 2 = 0) [0..<length positions])
      in map (\<lambda>i. rhs rule ! i)
           (filter (\<lambda>i. i \<notin> set skip_positions) [0..<length (rhs rule)]))"

definition eps_variants :: "Symbol list \<Rightarrow> GrammarRule \<Rightarrow> string list" where
  "eps_variants eps_producers rule =
     (if rhs rule = [] then []
      else
        let positions = eps_positions eps_producers rule in
        if positions = [] then [stage_text (lhs rule) (rhs rule)]
        else map (stage_text (lhs rule))
               (filter (\<lambda>new_rhs. new_rhs \<noteq> [])
                  (map (mask_rhs rule positions) [0..<2 ^ length positions])))"

definition new_start_rules :: "Symbol list \<Rightarrow> Symbol \<Rightarrow> Grammar outcome" where
  "new_start_rules eps_producers start =
     (if symbol_in start eps_producers then
        (case Nonterminal_init (val start @ ''1'') of
           Inl e \<Rightarrow> Raises e
         | Inr new_start \<Rightarrow>
             add_all Grammar_init
               [val new_start @ '' -> '' @ val start, val new_start @ '' -> '' @ epsilon_sign])
      else Returns Grammar_init)"

definition remove_epsilon_rules :: "iteration \<Rightarrow> Grammar \<Rightarrow> Symbol \<Rightarrow> Grammar outcome" where
  "remove_epsilon_rules h g start =
     (let rs = get_rules_list h g in
      case eps_loop rs
             (foldl (\<lambda>eps rule. if rhs rule = [] then symbol_add eps (lhs rule) else eps) [] rs) of
        None \<Rightarrow> Diverges
      | Some eps_producers \<Rightarrow>
          outcome_bind (new_start_rules eps_producers start)
            (\<lambda>new_grammar. add_all new_grammar (concat (map (eps_variants eps_producers) rs))))"

text \<open>
  \<open>eliminate_chain_rules\<close>. \<open>find_chain\<close> is the recursive function of that name; it
  returns the chain together with the set \<open>visited\<close>, which the calls share. Each call that
  goes on adds a new symbol to \<open>visited\<close>, so the recursion is at most one deeper than the
  grammar has rules; the first argument bounds the depth, and \<open>None\<close> stands for a
  recursion that exceeds it. The loops iterate the set \<open>grammar.rules\<close> itself, not the
  ordered view.
\<close>

definition is_chain_rule :: "GrammarRule \<Rightarrow> bool" where
  "is_chain_rule rule = (length (rhs rule) = 1 \<and> is_Nonterminal (rhs rule ! 0))"

fun find_chain ::
  "nat \<Rightarrow> iteration \<Rightarrow> GrammarRule list \<Rightarrow> Symbol \<Rightarrow> Symbol list \<Rightarrow> (Symbol list \<times> Symbol list) option" where
  "find_chain 0 h raw nt visited = None"
| "find_chain (Suc fuel) h raw nt visited =
     (if symbol_in nt visited then Some ([], visited)
      else
        foldl (\<lambda>acc rule.
                 case acc of
                   None \<Rightarrow> None
                 | Some (chain, visited') \<Rightarrow>
                     if Symbol_eq (lhs rule) nt \<and> is_chain_rule rule then
                       (case find_chain fuel h raw (rhs rule ! 0) visited' of
                          None \<Rightarrow> None
                        | Some (sub, visited'') \<Rightarrow>
                            Some (foldl symbol_add chain (symbol_order h sub), visited''))
                     else Some (chain, visited'))
          (Some ([nt], symbol_add visited nt)) raw)"

definition chain_texts :: "iteration \<Rightarrow> GrammarRule list \<Rightarrow> Symbol \<Rightarrow> Symbol list \<Rightarrow> string list" where
  "chain_texts h raw nt chain =
     concat (map (\<lambda>b. map (\<lambda>rule_b. stage_text nt (rhs rule_b))
                        (filter (\<lambda>rule_b. Symbol_eq (lhs rule_b) b \<and> \<not> is_chain_rule rule_b) raw))
               (symbol_order h chain))"

fun add_new :: "Grammar \<times> string list \<Rightarrow> string list \<Rightarrow> (Grammar \<times> string list) outcome" where
  "add_new (g, processed_rules) [] = Returns (g, processed_rules)"
| "add_new (g, processed_rules) (new_rule_str # rest) =
     (if new_rule_str \<in> set processed_rules then add_new (g, processed_rules) rest
      else
        (case add_rule g new_rule_str None of
           (g', None) \<Rightarrow> add_new (g', processed_rules @ [new_rule_str]) rest
         | (g', Some e) \<Rightarrow> Raises e))"

fun chain_loop ::
  "iteration \<Rightarrow> GrammarRule list \<Rightarrow> GrammarRule list \<Rightarrow> Grammar \<times> string list \<Rightarrow> Grammar outcome" where
  "chain_loop h raw [] (g, processed_rules) = Returns g"
| "chain_loop h raw (rule # rest) (g, processed_rules) =
     (case find_chain (length raw + 2) h raw (lhs rule) [] of
        None \<Rightarrow> Diverges
      | Some (chain, visited) \<Rightarrow>
          outcome_bind (add_new (g, processed_rules) (chain_texts h raw (lhs rule) chain))
            (chain_loop h raw rest))"

definition eliminate_chain_rules :: "iteration \<Rightarrow> Grammar \<Rightarrow> Grammar outcome" where
  "eliminate_chain_rules h g =
     (let raw = rule_order h (rules g) in chain_loop h raw raw (Grammar_init, []))"

text \<open>
  \<open>to_chomsky_normal_form\<close>. \<open>get_new_nonterminal\<close> returns the new symbol, or the
  error of \<open>Nonterminal.__init__\<close>, with the new value of the counter. \<open>cnf_state\<close> holds
  the variables \<open>cnf\<close>, \<open>new_rules\<close> (a dictionary, kept in the order of insertion as
  Python does), \<open>terminal_rules\<close> and \<open>next_nt_number\<close> (the field \<open>next_nt\<close>).
  \<open>first_pass\<close> and \<open>second_pass\<close> are the two loops over the rules, \<open>binarize\<close> the
  \<open>while\<close> loop of the second. \<open>renumber\<close> gives the rules the numbers 1 to N in the order
  of \<open>sorted\<close>; the rules are then kept in that order, which the ordered view of the
  result does not depend on.
\<close>

partial_function (option) get_new_nonterminal ::
  "GrammarRule list \<Rightarrow> nat \<Rightarrow> ((error + Symbol) \<times> nat) option" where
  "get_new_nonterminal raw next_nt_number =
     (if \<not> list_ex (\<lambda>rule. val (lhs rule) = CHR ''X'' # str_of_nat next_nt_number) raw
      then Some (Nonterminal_init (CHR ''X'' # str_of_nat next_nt_number), next_nt_number + 1)
      else get_new_nonterminal raw (next_nt_number + 1))"

declare get_new_nonterminal.simps [code]

definition rules_add :: "Grammar \<Rightarrow> GrammarRule \<Rightarrow> Grammar" where
  "rules_add g rule =
     (if list_ex (GrammarRule_eq rule) (rules g) then g else g\<lparr>rules := rules g @ [rule]\<rparr>)"

fun dict_set ::
  "(GrammarRule \<times> Symbol \<times> Symbol list) list \<Rightarrow> GrammarRule \<Rightarrow> Symbol \<times> Symbol list \<Rightarrow>
     (GrammarRule \<times> Symbol \<times> Symbol list) list" where
  "dict_set [] k v = [(k, v)]"
| "dict_set ((k', v') # d) k v =
     (if GrammarRule_eq k' k then (k', v) # d else (k', v') # dict_set d k v)"

record cnf_state =
  cnf :: Grammar
  new_rules :: "(GrammarRule \<times> Symbol \<times> Symbol list) list"
  terminal_rules :: "(string \<times> Symbol) list"
  next_nt :: nat

fun isolate_terminals ::
  "GrammarRule list \<Rightarrow> Symbol list \<Rightarrow> cnf_state \<Rightarrow> Symbol list \<Rightarrow> (cnf_state \<times> Symbol list) outcome" where
  "isolate_terminals raw [] st new_rhs = Returns (st, new_rhs)"
| "isolate_terminals raw (symbol # rest) st new_rhs =
     (if is_Terminal symbol then
        (case map_of (terminal_rules st) (val symbol) of
           Some nt \<Rightarrow> isolate_terminals raw rest st (new_rhs @ [nt])
         | None \<Rightarrow>
             (case get_new_nonterminal raw (next_nt st) of
                None \<Rightarrow> Diverges
              | Some (Inl e, n) \<Rightarrow> Raises e
              | Some (Inr new_nt, n) \<Rightarrow>
                  (case add_rule (cnf st) (val new_nt @ '' -> '' @ val symbol) None of
                     (g', Some e) \<Rightarrow> Raises e
                   | (g', None) \<Rightarrow>
                       isolate_terminals raw rest
                         (st\<lparr>cnf := g',
                             terminal_rules := terminal_rules st @ [(val symbol, new_nt)],
                             next_nt := n\<rparr>)
                         (new_rhs @ [new_nt]))))
      else isolate_terminals raw rest st (new_rhs @ [symbol]))"

fun first_pass :: "GrammarRule list \<Rightarrow> GrammarRule list \<Rightarrow> cnf_state \<Rightarrow> cnf_state outcome" where
  "first_pass raw [] st = Returns st"
| "first_pass raw (rule # rest) st =
     (if length (rhs rule) \<ge> 2 then
        outcome_bind (isolate_terminals raw (rhs rule) st [])
          (\<lambda>(st', new_rhs).
             first_pass raw rest (st'\<lparr>new_rules := dict_set (new_rules st') rule (lhs rule, new_rhs)\<rparr>))
      else
        first_pass raw rest
          (st\<lparr>cnf := rules_add (cnf st) \<lparr>lhs = lhs rule, rhs = rhs rule, rule_number = None\<rparr>\<rparr>))"

function binarize ::
  "GrammarRule list \<Rightarrow> Symbol list \<Rightarrow> Grammar \<Rightarrow> nat \<Rightarrow> (Grammar \<times> nat \<times> Symbol list) outcome" where
  "binarize raw current_rhs g n =
     (if length current_rhs > 2 then
        (case get_new_nonterminal raw n of
           None \<Rightarrow> Diverges
         | Some (Inl e, n') \<Rightarrow> Raises e
         | Some (Inr new_nt, n') \<Rightarrow>
             binarize raw (take (length current_rhs - 2) current_rhs @ [new_nt])
               (rules_add g
                  \<lparr>lhs = new_nt,
                   rhs = [current_rhs ! (length current_rhs - 2),
                          current_rhs ! (length current_rhs - 1)],
                   rule_number = None\<rparr>)
               n')
      else Returns (g, n, current_rhs))"
  by pat_completeness auto
termination
  by (relation "measure (\<lambda>(raw, current_rhs, g, n). length current_rhs)") auto

fun second_pass ::
  "GrammarRule list \<Rightarrow> (GrammarRule \<times> Symbol \<times> Symbol list) list \<Rightarrow> Grammar \<Rightarrow> nat \<Rightarrow> Grammar outcome" where
  "second_pass raw [] g n = Returns g"
| "second_pass raw ((original_rule, l, r) # rest) g n =
     outcome_bind (binarize raw r g n)
       (\<lambda>(g', n', current_rhs).
          second_pass raw rest
            (if current_rhs \<noteq> []
             then rules_add g' \<lparr>lhs = l, rhs = current_rhs, rule_number = None\<rparr>
             else g')
            n')"

definition renumber :: "iteration \<Rightarrow> Grammar \<Rightarrow> Grammar" where
  "renumber h g =
     (let sorted_rules = sort_key rule_key (rule_order h (rules g)) in
      \<lparr>rules = map (\<lambda>(i, rule). rule\<lparr>rule_number := Some (int i)\<rparr>)
                 (zip [1..<Suc (length sorted_rules)] sorted_rules),
       next_rule_number = int (length (rules g)) + 1\<rparr>)"

definition to_chomsky_normal_form :: "iteration \<Rightarrow> Grammar \<Rightarrow> Grammar outcome" where
  "to_chomsky_normal_form h g =
     (let raw = rule_order h (rules g) in
      outcome_bind
        (first_pass raw (get_rules_list h g)
           \<lparr>cnf = Grammar_init, new_rules = [], terminal_rules = [], next_nt = 1\<rparr>)
        (\<lambda>st. outcome_bind (second_pass raw (new_rules st) (cnf st) (next_nt st))
                 (\<lambda>g'. Returns (renumber h g'))))"

text \<open>
  \<open>CYKParser.__init__\<close>: the start symbol is the left-hand side of the first rule in
  ordered iteration, and stays the start symbol of the parser after the pipeline.
\<close>

definition CYKParser_init :: "iteration \<Rightarrow> Grammar \<Rightarrow> CYKParser outcome" where
  "CYKParser_init h g =
     (if rules g = [] then
        Returns \<lparr>start_symbol = None, grammar = g, recognition_table = Map.empty\<rparr>
      else
        (case get_rules_list h g of
           [] \<Rightarrow> Raises IndexError
         | first_rule # others \<Rightarrow>
             outcome_bind (remove_nonproductive h g)
               (\<lambda>g1. outcome_bind (remove_unreachable h g1 (val (lhs first_rule)))
                 (\<lambda>g2. outcome_bind (remove_epsilon_rules h g2 (lhs first_rule))
                   (\<lambda>g3. outcome_bind (eliminate_chain_rules h g3)
                     (\<lambda>g4. outcome_bind (to_chomsky_normal_form h g4)
                       (\<lambda>g5. Returns \<lparr>start_symbol = Some (lhs first_rule), grammar = g5,
                                       recognition_table = Map.empty\<rparr>)))))))"

section \<open>Derivations, and the program run from rule texts\<close>

text \<open>
  What a grammar derives: a rule rewrites one occurrence of its left-hand side.
  \<open>generates g start word\<close>: the word, as terminals of one character, is derived from the
  start symbol. \<open>listing\<close> shows the rules of a grammar; \<open>new_parser\<close> is the program run on
  rule texts, \<open>add_rule\<close> for each text and then \<open>CYKParser\<close>, as \<open>main\<close> does.
  \<open>reversed_cells\<close> is the iteration order that differs from \<open>insertion_order\<close> in the
  cells of the table, iterated from the last entry added to the first.
\<close>

inductive derives :: "GrammarRule list \<Rightarrow> Symbol list \<Rightarrow> Symbol list \<Rightarrow> bool"
  for rs :: "GrammarRule list" where
  derives_refl: "derives rs u u"
| derives_step: "derives rs u (a @ [lhs rule] @ b) \<Longrightarrow> rule \<in> set rs \<Longrightarrow>
     derives rs u (a @ rhs rule @ b)"

definition generates :: "Grammar \<Rightarrow> Symbol \<Rightarrow> string \<Rightarrow> bool" where
  "generates g start word = derives (rules g) [start] (map (\<lambda>c. Terminal [c]) word)"

definition listing :: "Grammar \<Rightarrow> (Symbol \<times> Symbol list \<times> int option) list" where
  "listing g = map (\<lambda>rule. (lhs rule, rhs rule, rule_number rule)) (rules g)"

definition new_parser :: "iteration \<Rightarrow> string list \<Rightarrow> CYKParser outcome" where
  "new_parser h texts = outcome_bind (add_all Grammar_init texts) (CYKParser_init h)"


section \<open>Properties of symbols and of the container\<close>

lemma decode_S_a: "decode_rule ''S -> a'' = Inr (Nonterminal ''S'', [Terminal ''a''])"
  by (simp add: decode_rule_def strip_def isspace_def isupper_def Nonterminal_init_def
        apostrophe_def epsilon_sign_def str_isspace_def)

lemma decode_S_b: "decode_rule ''S -> b'' = Inr (Nonterminal ''S'', [Terminal ''b''])"
  by (simp add: decode_rule_def strip_def isspace_def isupper_def Nonterminal_init_def
        apostrophe_def epsilon_sign_def str_isspace_def)

text \<open>
  C5, as the code has it: two symbols are equal, and have equal hashes, if and only if
  their values are equal; the category takes no part.
\<close>

theorem Symbol_eq_value_only:
  "(Symbol_eq a b \<and> Symbol_hash h a = Symbol_hash h b) = (val a = val b)"
  by (auto simp: Symbol_eq_def Symbol_hash_def)

text \<open>
  C5 as stated fails: the terminal \<open>A\<close> and the nonterminal \<open>A\<close>, which
  \<open>Nonterminal.__init__\<close> accepts, are of different categories, yet equal with equal hashes.
\<close>

theorem Symbol_eq_ignores_category:
  "Nonterminal_init ''A'' = Inr (Nonterminal ''A'') \<and>
   Symbol_eq (Terminal ''A'') (Nonterminal ''A'') \<and>
   (\<forall>h. Symbol_hash h (Terminal ''A'') = Symbol_hash h (Nonterminal ''A'')) \<and>
   is_Terminal (Terminal ''A'') \<and> \<not> is_Terminal (Nonterminal ''A'')"
  by (simp add: Symbol_eq_def Symbol_hash_def Nonterminal_init_def isupper_def)

text \<open>
  C6: in the grammar holding \<open>S -> a\<close>, inserting the new rule \<open>S -> b\<close> at position 1
  raises \<open>TypeError\<close> and leaves the grammar as it was: no ordinal is shifted and the rule
  is not inserted. At position 0 the call raises the error of the position check.
\<close>

theorem add_rule_position_raises:
  "add_rule (fst (add_rule Grammar_init ''S -> a'' None)) ''S -> b'' (Some 1) =
     (\<lparr>rules = [\<lparr>lhs = Nonterminal ''S'', rhs = [Terminal ''a''], rule_number = Some 1\<rparr>],
       next_rule_number = 2\<rparr>, Some TypeError) \<and>
   add_rule (fst (add_rule Grammar_init ''S -> a'' None)) ''S -> b'' (Some 0) =
     (\<lparr>rules = [\<lparr>lhs = Nonterminal ''S'', rhs = [Terminal ''a''], rule_number = Some 1\<rparr>],
       next_rule_number = 2\<rparr>, Some InvalidPosition)"
  by (simp add: add_rule_def decode_S_a decode_S_b Grammar_init_def GrammarRule_eq_def
        Symbol_eq_def)

text \<open>
  C9: whenever \<open>add_rule\<close> raises, whatever the error, the grammar after the call is the
  grammar before it: the same rules with the same ordinals, and the same counter.
\<close>

theorem add_rule_failure_unchanged:
  "snd (add_rule g rule_str position) = Some e \<Longrightarrow> fst (add_rule g rule_str position) = g"
  by (auto simp: add_rule_def Let_def split: sum.splits prod.splits option.splits if_splits)

theorem add_rule_failure_unchanged_witness:
  "snd (add_rule (fst (add_rule Grammar_init ''S -> a'' None)) ''S'' None) = Some InvalidRuleFormat \<and>
   fst (add_rule (fst (add_rule Grammar_init ''S -> a'' None)) ''S'' None) =
     fst (add_rule Grammar_init ''S -> a'' None)"
proof -
  have "snd (add_rule (fst (add_rule Grammar_init ''S -> a'' None)) ''S'' None) = Some InvalidRuleFormat"
    by (simp add: add_rule_def decode_rule_def)
  then show ?thesis
    using add_rule_failure_unchanged [of "fst (add_rule Grammar_init ''S -> a'' None)" "''S''" None InvalidRuleFormat]
    by simp
qed

section \<open>The round trip of a rule through text\<close>































text \<open>
  The text of \<open>GrammarRule.__str__\<close> is decoded as the same rule when the rule has no
  number; with a number it is not the text of a rule, since the number is read as part
  of the left-hand side.
\<close>

lemma GrammarRule_str_decoded:
  "GrammarRule_str \<lparr>lhs = Nonterminal ''S'', rhs = [Nonterminal ''A'', Terminal ''b''],
                    rule_number = None\<rparr> = ''S -> A b'' \<and>
   decode_rule ''S -> A b'' = Inr (Nonterminal ''S'', [Nonterminal ''A'', Terminal ''b'']) \<and>
   GrammarRule_str \<lparr>lhs = Nonterminal ''S'', rhs = [Nonterminal ''A'', Terminal ''b''],
                    rule_number = Some 1\<rparr> = ''1. S -> A b'' \<and>
   decode_rule ''1. S -> A b'' = Inl InvalidNonterminal"
  by code_simp

section \<open>The recognizer always answers\<close>

lemma foldl_invariant:
  "I s \<Longrightarrow> (\<And>s x. x \<in> set xs \<Longrightarrow> I s \<Longrightarrow> I (f s x)) \<Longrightarrow> I (foldl f s xs)"
  by (induction xs arbitrary: s) auto

lemma add_to_table_keys: "keys_ok P T \<Longrightarrow> P i j \<Longrightarrow> keys_ok P (add_to_table T i j e)"
  by (auto simp: keys_ok_def add_to_table_def split: option.splits if_splits)

lemma fill_base_keys:
  assumes "keys_ok P T"
      and "\<And>i rule. i < length word \<Longrightarrow> rule \<in> set rs \<Longrightarrow> is_terminal_rule rule [word ! i] \<Longrightarrow> P i 1"
  shows "keys_ok P (fill_base rs word T)"
  unfolding fill_base_def
proof (rule foldl_invariant [where I = "keys_ok P"])
  show "keys_ok P T" by (rule assms(1))
next
  fix s i
  assume i: "i \<in> set [0..<length word]" and s: "keys_ok P s"
  show "keys_ok P (foldl (base_step word i) s rs)"
  proof (rule foldl_invariant [where I = "keys_ok P"])
    show "keys_ok P s" by (rule s)
  next
    fix s' rule
    assume "rule \<in> set rs" "keys_ok P s'"
    then show "keys_ok P (base_step word i s' rule)"
      using assms(2) [of i rule] i by (auto simp: base_step_def intro: add_to_table_keys)
  qed
qed

lemma span_step_keys:
  assumes "keys_ok P T"
      and "T (i, k) \<noteq> None \<Longrightarrow> T (i + k, j - k) \<noteq> None \<Longrightarrow> P i j"
  shows "keys_ok P (span_step h i j k T rule)"
proof (cases "length (rhs rule) = 2 \<and> T (i, k) \<noteq> None \<and> T (i + k, j - k) \<noteq> None")
  case False
  then show ?thesis using assms(1) by (auto simp: span_step_def split: option.splits)
next
  case True
  then obtain left right where lr: "T (i, k) = Some left" "T (i + k, j - k) = Some right"
    by auto
  have P: "P i j" using assms(2) True by simp
  have "keys_ok P (foldl (\<lambda>T l. foldl (pair_step rule i j l) T (entry_order h right))
                    T (entry_order h left))"
  proof (rule foldl_invariant [where I = "keys_ok P"])
    show "keys_ok P T" by (rule assms(1))
  next
    fix s l
    assume s: "keys_ok P s"
    show "keys_ok P (foldl (pair_step rule i j l) s (entry_order h right))"
    proof (rule foldl_invariant [where I = "keys_ok P"])
      show "keys_ok P s" by (rule s)
    next
      fix s' r
      assume "keys_ok P s'"
      then show "keys_ok P (pair_step rule i j l s' r)"
        using P by (auto simp: pair_step_def intro: add_to_table_keys)
    qed
  qed
  then show ?thesis using True lr by (simp add: span_step_def)
qed

lemma fill_spans_keys:
  assumes "keys_ok P T"
      and "\<And>i j k T'. keys_ok P T' \<Longrightarrow> 2 \<le> j \<Longrightarrow> i + j \<le> n \<Longrightarrow> 1 \<le> k \<Longrightarrow> k < j \<Longrightarrow>
             T' (i, k) \<noteq> None \<Longrightarrow> T' (i + k, j - k) \<noteq> None \<Longrightarrow> P i j"
  shows "keys_ok P (fill_spans h rs n T)"
  unfolding fill_spans_def
proof (rule foldl_invariant [where I = "keys_ok P"])
  show "keys_ok P T" by (rule assms(1))
next
  fix s1 j
  assume j: "j \<in> set [2..<n + 1]" and s1: "keys_ok P s1"
  show "keys_ok P (foldl (\<lambda>T i. foldl (\<lambda>T k. foldl (span_step h i j k) T rs) T [1..<j]) s1 [0..<n - j + 1])"
  proof (rule foldl_invariant [where I = "keys_ok P"])
    show "keys_ok P s1" by (rule s1)
  next
    fix s2 i
    assume i: "i \<in> set [0..<n - j + 1]" and s2: "keys_ok P s2"
    show "keys_ok P (foldl (\<lambda>T k. foldl (span_step h i j k) T rs) s2 [1..<j])"
    proof (rule foldl_invariant [where I = "keys_ok P"])
      show "keys_ok P s2" by (rule s2)
    next
      fix s3 k
      assume k: "k \<in> set [1..<j]" and s3: "keys_ok P s3"
      show "keys_ok P (foldl (span_step h i j k) s3 rs)"
      proof (rule foldl_invariant [where I = "keys_ok P"])
        show "keys_ok P s3" by (rule s3)
      next
        fix s4 rule
        assume s4: "keys_ok P s4"
        show "keys_ok P (span_step h i j k s4 rule)"
        proof (rule span_step_keys [OF s4])
          assume "s4 (i, k) \<noteq> None" "s4 (i + k, j - k) \<noteq> None"
          then show "P i j" using assms(2) [OF s4, of j i k] i j k by auto
        qed
      qed
    qed
  qed
qed

lemma fill_table_valid_keys:
  "keys_ok (\<lambda>i j. i + j \<le> length word) (fill_table h p word)"
  unfolding fill_table_def Let_def
  by (rule fill_spans_keys, rule fill_base_keys) (auto simp: keys_ok_def)

lemma fill_table_uncovered:
  assumes "i0 < length word"
      and "\<not> list_ex (\<lambda>rule. is_terminal_rule rule [word ! i0]) (get_rules_list h (grammar p))"
  shows "keys_ok (\<lambda>i j. \<not> (i \<le> i0 \<and> i0 < i + j)) (fill_table h p word)"
  unfolding fill_table_def Let_def
proof (rule fill_spans_keys, rule fill_base_keys)
  show "keys_ok (\<lambda>i j. \<not> (i \<le> i0 \<and> i0 < i + j)) Map.empty" by (simp add: keys_ok_def)
next
  fix i rule
  assume "rule \<in> set (get_rules_list h (grammar p))" "is_terminal_rule rule [word ! i]"
  then have "i \<noteq> i0" using assms(2) by (auto simp: list_ex_iff)
  then show "\<not> (i \<le> i0 \<and> i0 < i + 1)" by simp
next
  fix i j k T'
  assume a: "keys_ok (\<lambda>i j. \<not> (i \<le> i0 \<and> i0 < i + j)) T'" "k < j"
    "T' (i, k) \<noteq> None" "T' (i + k, j - k) \<noteq> None"
  have "\<not> (i \<le> i0 \<and> i0 < i + k)" using a(1,3) by (simp add: keys_ok_def)
  moreover have "\<not> (i + k \<le> i0 \<and> i0 < i + k + (j - k))" using a(1,4) by (simp add: keys_ok_def)
  ultimately show "\<not> (i \<le> i0 \<and> i0 < i + j)" using a(2) by arith
qed


lemma leaf_search_returns: "i < length word \<Longrightarrow> \<exists>d. leaf_search rs word i current_nt = Inr d"
  by (induction rs) auto

lemma split_candidates_keys:
  "x \<in> set (split_candidates h rs T i j current_nt) \<Longrightarrow>
   T (i, fst x) \<noteq> None \<and> T (i + fst x, j - fst x) \<noteq> None"
  by (auto simp: split_candidates_def cell_candidates_def pair_candidates_def
      split: option.splits) metis+

lemma trace_rules_returns:
  "keys_ok (\<lambda>i j. i + j \<le> length word) T \<Longrightarrow> i + j \<le> length word \<Longrightarrow>
   \<exists>d. trace_rules h rs T word i j current_nt = Inr d"
proof (induction h rs T word i j current_nt rule: trace_rules.induct)
  case (1 h rs T word i j current_nt)
  show ?case
  proof (cases "j = 1")
    case True
    then show ?thesis using 1(4) leaf_search_returns [of i word rs current_nt]
      by (subst trace_rules.simps) simp
  next
    case False
    show ?thesis
    proof (cases "split_candidates h rs T i j current_nt")
      case Nil
      then show ?thesis using False by (subst trace_rules.simps) simp
    next
      case (Cons x xs)
      obtain k left_nt right_nt rule where x: "x = (k, left_nt, right_nt, rule)"
        by (cases x) auto
      have mem: "x \<in> set (split_candidates h rs T i j current_nt)" using Cons by simp
      have keys: "T (i, k) \<noteq> None" "T (i + k, j - k) \<noteq> None"
        using split_candidates_keys [OF mem] x by auto
      have le: "i + k \<le> length word" "i + k + (j - k) \<le> length word"
        using keys 1(3) by (auto simp: keys_ok_def)
      obtain dl where dl: "trace_rules h rs T word i k left_nt = Inr dl"
        using 1(1) [OF False Cons, of k "(left_nt, right_nt, rule)" left_nt "(right_nt, rule)"]
          x 1(3) le by auto
      obtain dr where dr: "trace_rules h rs T word (i + k) (j - k) right_nt = Inr dr"
        using 1(2) [OF False Cons, of k "(left_nt, right_nt, rule)" left_nt "(right_nt, rule)"
            right_nt rule dl] x 1(3) le dl by auto
      show ?thesis using False Cons x dl dr by (subst trace_rules.simps) simp
    qed
  qed
qed

lemma get_derivation_rules_returns:
  "\<exists>d. get_derivation_rules h p (fill_table h p word) word = Inr d"
  using trace_rules_returns [OF fill_table_valid_keys, where i = 0 and j = "length word"]
  by (auto simp: get_derivation_rules_def Let_def split: option.splits list.splits)

lemma parse_returns:
  "\<exists>accepted derivation.
     parse h p word = Inr (accepted, derivation) \<and> accepted = (derivation \<noteq> None)"
proof -
  obtain d where "get_derivation_rules h p (fill_table h p word) word = Inr d"
    using get_derivation_rules_returns by blast
  then show ?thesis
    by (auto simp: parse_def Let_def split: option.splits)
qed

lemma parse_no_start: "start_symbol p = None \<Longrightarrow> parse h p word = Inr (False, None)"
  by (simp add: parse_def Let_def split: option.splits)

lemma parse_uncovered:
  assumes "i0 < length word"
      and "\<not> list_ex (\<lambda>rule. is_terminal_rule rule [word ! i0]) (get_rules_list h (grammar p))"
  shows "parse h p word = Inr (False, None)"
proof -
  have "fill_table h p word (0, length word) = None"
  proof (rule ccontr)
    assume "fill_table h p word (0, length word) \<noteq> None"
    then have "\<not> (0 \<le> i0 \<and> i0 < 0 + length word)"
      using fill_table_uncovered [OF assms] unfolding keys_ok_def by blast
    then show False using assms(1) by simp
  qed
  then show ?thesis by (simp add: parse_def Let_def)
qed

lemma foldl_same: "(\<And>s x. f s x = s) \<Longrightarrow> foldl f s xs = s"
  by (induction xs arbitrary: s) auto

lemma fill_table_no_rules:
  assumes "get_rules_list h (grammar p) = []"
  shows "fill_table h p word = Map.empty"
  by (simp add: fill_table_def fill_spans_def fill_base_def assms foldl_same)

lemma get_rules_list_empty:
  "is_iteration h \<Longrightarrow> rules g = [] \<Longrightarrow> get_rules_list h g = []"
proof -
  assume "is_iteration h" "rules g = []"
  then have "mset (rule_order h (rules g)) = {#}" by (simp add: is_iteration_def)
  then show ?thesis by (simp add: get_rules_list_def)
qed

lemma parse_empty_grammar:
  "is_iteration h \<Longrightarrow> rules (grammar p) = [] \<Longrightarrow> parse h p word = Inr (False, None)"
  using fill_table_no_rules [OF get_rules_list_empty] by (simp add: parse_def Let_def)

text \<open>
  C8: for every parser state, every word and every iteration order, \<open>parse\<close> returns a
  pair and raises nothing; the derivation is present exactly when the word is accepted, and
  absent (Python's \<open>None\<close>) otherwise. An empty grammar, a parser without start symbol,
  and a word with a character that no terminal rule matches are rejected with no derivation.
\<close>

theorem parse_verdict:
  "(\<exists>accepted derivation.
      parse h p word = Inr (accepted, derivation) \<and> accepted = (derivation \<noteq> None)) \<and>
   (is_iteration h \<and> rules (grammar p) = [] \<longrightarrow> parse h p word = Inr (False, None)) \<and>
   (start_symbol p = None \<longrightarrow> parse h p word = Inr (False, None)) \<and>
   (\<forall>i. i < length word \<and>
        \<not> list_ex (\<lambda>rule. is_terminal_rule rule [word ! i]) (get_rules_list h (grammar p))
        \<longrightarrow> parse h p word = Inr (False, None))"
  using parse_returns parse_no_start parse_uncovered parse_empty_grammar by blast

theorem parse_verdict_witness:
  "is_iteration insertion_order \<and>
   rules (grammar \<lparr>start_symbol = None, grammar = Grammar_init, recognition_table = Map.empty\<rparr>) = [] \<and>
   start_symbol \<lparr>start_symbol = None, grammar = Grammar_init, recognition_table = Map.empty\<rparr> = None \<and>
   (0::nat) < length ''a'' \<and>
   \<not> list_ex (\<lambda>rule. is_terminal_rule rule [''a'' ! 0])
       (get_rules_list insertion_order
          (grammar \<lparr>start_symbol = None, grammar = Grammar_init, recognition_table = Map.empty\<rparr>)) \<and>
   parse insertion_order \<lparr>start_symbol = None, grammar = Grammar_init, recognition_table = Map.empty\<rparr> ''a'' =
     Inr (False, None)"
  using parse_verdict [of insertion_order
      "\<lparr>start_symbol = None, grammar = Grammar_init, recognition_table = Map.empty\<rparr>" "''a''"]
  by (simp add: is_iteration_def insertion_order_def Grammar_init_def get_rules_list_def)

section \<open>The choice made by derivation reconstruction\<close>














section \<open>The program on concrete grammars\<close>

lemma eps_grammar_built: "add_all Grammar_init [''S -> e p s''] =
    Returns \<lparr>rules = [\<lparr>lhs = Nonterminal ''S'', rhs = [Terminal ''e'', Terminal ''p'', Terminal ''s''],
                       rule_number = Some 1\<rparr>], next_rule_number = 2\<rparr>"
  by code_simp

lemma eps_grammar_generates: "generates \<lparr>rules = [\<lparr>lhs = Nonterminal ''S'', rhs = [Terminal ''e'', Terminal ''p'', Terminal ''s''],
                       rule_number = Some 1\<rparr>], next_rule_number = 2\<rparr> (Nonterminal ''S'') ''eps''"
proof -
  let ?r = "\<lparr>lhs = Nonterminal ''S'', rhs = [Terminal ''e'', Terminal ''p'', Terminal ''s''],
             rule_number = Some 1\<rparr>"
  have "derives [?r] [Nonterminal ''S''] ([] @ [lhs ?r] @ [])" by (simp add: derives_refl)
  then have "derives [?r] [Nonterminal ''S''] ([] @ rhs ?r @ [])"
    by (rule derives_step) simp
  then show ?thesis by (simp add: generates_def)
qed

lemma eps_grammar_parse: "outcome_bind (new_parser insertion_order [''S -> e p s''])
     (\<lambda>p. Returns (start_symbol p, listing (grammar p), parse insertion_order p ''eps'')) =
   Returns (Some (Nonterminal ''S''), [(Nonterminal ''S1'', [], Some 1)], Inr (False, None))"
  by code_simp

lemma parse_empty_word: "parse h p [] = Inr (False, None)"
  by (simp add: parse_def fill_table_def fill_base_def fill_spans_def Let_def)

lemma nullable_start_parse: "outcome_bind (new_parser insertion_order [''S -> A S'', ''S -> '' @ epsilon_sign, ''A -> a''])
     (\<lambda>p. Returns (start_symbol p, listing (grammar p), parse insertion_order p [])) =
   Returns (Some (Nonterminal ''S''),
     [(Nonterminal ''S1'', [], Some 1), (Nonterminal ''S1'', [Terminal ''a''], Some 2),
      (Nonterminal ''S'', [Terminal ''a''], Some 3), (Nonterminal ''A'', [Terminal ''a''], Some 4),
      (Nonterminal ''S1'', [Nonterminal ''A'', Nonterminal ''S''], Some 5),
      (Nonterminal ''S'', [Nonterminal ''A'', Nonterminal ''S''], Some 6)],
     Inr (False, None))"
  by code_simp

lemma eps_variant_pipeline: "outcome_bind (new_parser insertion_order [''S -> eAps'', ''A -> a'', ''A -> eps''])
     (\<lambda>p. Returns (start_symbol p, listing (grammar p))) =
   Returns (Some (Nonterminal ''S''),
     [(Nonterminal ''X1'', [Terminal ''e''], Some 1), (Nonterminal ''X2'', [Terminal ''p''], Some 2),
      (Nonterminal ''X3'', [Terminal ''s''], Some 3), (Nonterminal ''S'', [], Some 4),
      (Nonterminal ''A'', [Terminal ''a''], Some 5),
      (Nonterminal ''X4'', [Nonterminal ''X2'', Nonterminal ''X3''], Some 6),
      (Nonterminal ''X5'', [Nonterminal ''A'', Nonterminal ''X4''], Some 7),
      (Nonterminal ''S'', [Nonterminal ''X1'', Nonterminal ''X5''], Some 8)])"
  by code_simp

lemma long_start_built: "add_all Grammar_init [''ABC -> eps''] =
     Returns \<lparr>rules = [\<lparr>lhs = Nonterminal ''ABC'', rhs = [], rule_number = Some 1\<rparr>],
              next_rule_number = 2\<rparr>"
  by code_simp

lemma long_start_init_bind: "outcome_bind (new_parser insertion_order [''ABC -> eps''])
     (\<lambda>p. Returns (start_symbol p)) = Raises InvalidNonterminal"
  by code_simp

lemma long_start_init: "new_parser insertion_order [''ABC -> eps''] = Raises InvalidNonterminal"
  using long_start_init_bind by (cases "new_parser insertion_order [''ABC -> eps'']") auto


lemma scenario_1_and_2: "outcome_bind (new_parser insertion_order [''S -> A S'', ''S -> a'', ''A -> b''])
     (\<lambda>p. Returns (listing (grammar p), parse insertion_order p ''ba'', parse insertion_order p ''ab'')) =
   Returns ([(Nonterminal ''S'', [Terminal ''a''], Some 1), (Nonterminal ''A'', [Terminal ''b''], Some 2),
      (Nonterminal ''S'', [Nonterminal ''A'', Nonterminal ''S''], Some 3)],
     Inr (True, Some [Some 3, Some 2, Some 1]), Inr (False, None))"
  by code_simp


text \<open>
  C1: the grammar with the single rule \<open>S -> e p s\<close> generates the word \<open>eps\<close>, but the
  parser built from it rejects the word: \<open>remove_nonproductive\<close> writes the rule as
  \<open>S -> eps\<close>, which \<open>add_rule\<close> decodes as an epsilon rule, and the normalized grammar is
  left with \<open>S1 -> \<close> epsilon alone.
\<close>

theorem pipeline_loses_word:
  "add_all Grammar_init [''S -> e p s''] =
     Returns \<lparr>rules = [\<lparr>lhs = Nonterminal ''S'',
                         rhs = [Terminal ''e'', Terminal ''p'', Terminal ''s''],
                         rule_number = Some 1\<rparr>], next_rule_number = 2\<rparr> \<and>
   generates \<lparr>rules = [\<lparr>lhs = Nonterminal ''S'',
                         rhs = [Terminal ''e'', Terminal ''p'', Terminal ''s''],
                         rule_number = Some 1\<rparr>], next_rule_number = 2\<rparr>
     (Nonterminal ''S'') ''eps'' \<and>
   outcome_bind (new_parser insertion_order [''S -> e p s''])
     (\<lambda>p. Returns (start_symbol p, listing (grammar p), parse insertion_order p ''eps'')) =
   Returns (Some (Nonterminal ''S''), [(Nonterminal ''S1'', [], Some 1)], Inr (False, None))"
  using eps_grammar_built eps_grammar_generates eps_grammar_parse by simp

text \<open>
  C2: \<open>parse\<close> rejects the empty word whatever the parser, since no cell \<open>(0, 0)\<close> is ever
  added to the table. For the grammar \<open>S -> A S\<close>, \<open>S -> \<close> epsilon, \<open>A -> a\<close> the pipeline
  does synthesize \<open>S1 -> \<close> epsilon, but the parser keeps \<open>S\<close> as its start symbol and
  answers false.
\<close>

theorem parse_rejects_empty_word:
  "(\<forall>h p. parse h p [] = Inr (False, None)) \<and>
   outcome_bind (new_parser insertion_order [''S -> A S'', ''S -> '' @ epsilon_sign, ''A -> a''])
     (\<lambda>p. Returns (start_symbol p, listing (grammar p), parse insertion_order p [])) =
   Returns (Some (Nonterminal ''S''),
     [(Nonterminal ''S1'', [], Some 1), (Nonterminal ''S1'', [Terminal ''a''], Some 2),
      (Nonterminal ''S'', [Terminal ''a''], Some 3), (Nonterminal ''A'', [Terminal ''a''], Some 4),
      (Nonterminal ''S1'', [Nonterminal ''A'', Nonterminal ''S''], Some 5),
      (Nonterminal ''S'', [Nonterminal ''A'', Nonterminal ''S''], Some 6)],
     Inr (False, None))"
  using parse_empty_word nullable_start_parse by simp

text \<open>
  C3: for the grammar \<open>S -> eAps\<close>, \<open>A -> a\<close>, \<open>A -> eps\<close>, whose start symbol is not
  nullable, the output of the pipeline holds the rule \<open>S -> \<close> epsilon (number 4): the
  variant of the first rule without \<open>A\<close> is written as \<open>S -> eps\<close> by
  \<open>remove_epsilon_rules\<close> and decoded as an epsilon rule.
\<close>

theorem pipeline_keeps_epsilon_rule:
  "outcome_bind (new_parser insertion_order [''S -> eAps'', ''A -> a'', ''A -> eps''])
     (\<lambda>p. Returns (start_symbol p, listing (grammar p))) =
   Returns (Some (Nonterminal ''S''),
     [(Nonterminal ''X1'', [Terminal ''e''], Some 1), (Nonterminal ''X2'', [Terminal ''p''], Some 2),
      (Nonterminal ''X3'', [Terminal ''s''], Some 3), (Nonterminal ''S'', [], Some 4),
      (Nonterminal ''A'', [Terminal ''a''], Some 5),
      (Nonterminal ''X4'', [Nonterminal ''X2'', Nonterminal ''X3''], Some 6),
      (Nonterminal ''X5'', [Nonterminal ''A'', Nonterminal ''X4''], Some 7),
      (Nonterminal ''S'', [Nonterminal ''X1'', Nonterminal ''X5''], Some 8)])"
  by (rule eps_variant_pipeline)

text \<open>
  C7: the grammar with the single rule \<open>ABC -> \<close> epsilon is built by \<open>add_rule\<close> without
  error, and \<open>CYKParser.__init__\<close> raises on it: the start symbol is nullable, and
  \<open>remove_epsilon_rules\<close> asks for the nonterminal \<open>ABC1\<close>, which is longer than three
  characters.
\<close>

theorem init_raises_on_long_start:
  "add_all Grammar_init [''ABC -> eps''] =
     Returns \<lparr>rules = [\<lparr>lhs = Nonterminal ''ABC'', rhs = [], rule_number = Some 1\<rparr>],
              next_rule_number = 2\<rparr> \<and>
   new_parser insertion_order [''ABC -> eps''] = Raises InvalidNonterminal"
  using long_start_built long_start_init by simp

end
